theory Spec2Isabelle
  imports Main "HOL-Library.Word"
begin

section \<open>Go standard-library functions used by the toolkit\<close>

text \<open>
  A Go \<open>string\<close> is a sequence of bytes; it is modelled as \<^typ>\<open>string\<close> (a list of
  8-bit \<^typ>\<open>char\<close>). The toolkit calls \<open>strings.ToLower\<close>, \<open>strings.TrimSpace\<close>
  and \<open>strings.Contains\<close>. The first two are Unicode-aware in Go (case folding of
  non-ASCII letters, trimming of non-ASCII white space), so the model takes them as
  parameters, bundled in a record, instead of fixing their behaviour on bytes
  above 127. On pure ASCII strings Go's implementation takes a fast path whose
  behaviour is fixed below (\<open>ascii_ToLower\<close>, \<open>ascii_TrimSpace\<close>); the predicate
  \<open>go_strings\<close> says that a library agrees with it there.
\<close>

record GoStrings =
  ToLower :: "string \<Rightarrow> string"
  TrimSpace :: "string \<Rightarrow> string"

definition is_ascii :: "string \<Rightarrow> bool" where
  "is_ascii s = (\<forall>c \<in> set s. (of_char c :: nat) < 128)"

definition ascii_lower :: "char \<Rightarrow> char" where
  "ascii_lower c =
     (if 65 \<le> (of_char c :: nat) \<and> (of_char c :: nat) \<le> 90
      then char_of ((of_char c :: nat) + 32) else c)"

definition ascii_ToLower :: "string \<Rightarrow> string" where
  "ascii_ToLower s = map ascii_lower s"

text \<open>Go's \<open>asciiSpace\<close> table: tab, line feed, vertical tab, form feed, carriage return, space.\<close>

definition ascii_space :: "char \<Rightarrow> bool" where
  "ascii_space c = ((of_char c :: nat) \<in> {9, 10, 11, 12, 13, 32})"

definition ascii_TrimSpace :: "string \<Rightarrow> string" where
  "ascii_TrimSpace s = rev (dropWhile ascii_space (rev (dropWhile ascii_space s)))"

definition ascii_strings :: GoStrings where
  "ascii_strings = \<lparr>ToLower = ascii_ToLower, TrimSpace = ascii_TrimSpace\<rparr>"

definition go_strings :: "GoStrings \<Rightarrow> bool" where
  "go_strings L =
     (\<forall>s. is_ascii s \<longrightarrow> ToLower L s = ascii_ToLower s \<and> TrimSpace L s = ascii_TrimSpace s)"

text \<open>
  \<open>strings.Contains(s, substr)\<close> is a byte-wise search: \<open>substr\<close> occurs in \<open>s\<close> as a
  contiguous block. The empty string is contained in every string.
\<close>

fun has_prefix :: "string \<Rightarrow> string \<Rightarrow> bool" where
  "has_prefix s [] = True"
| "has_prefix [] (y # ys) = False"
| "has_prefix (x # xs) (y # ys) = (x = y \<and> has_prefix xs ys)"

fun Contains :: "string \<Rightarrow> string \<Rightarrow> bool" where
  "Contains [] substr = (substr = [])"
| "Contains (x # xs) substr = (has_prefix (x # xs) substr \<or> Contains xs substr)"


section \<open>The type registry (type-mapping.go)\<close>

record TypeMapping =
  PortableType :: string
  LMSType :: string
  LMSSubtype :: string
  Description :: string
  Deprecated :: bool

text \<open>The positional composite literal \<open>{p, l, s, d, dep}\<close> of the source.\<close>

definition TM :: "string \<Rightarrow> string \<Rightarrow> string \<Rightarrow> string \<Rightarrow> bool \<Rightarrow> TypeMapping" where
  "TM p l s d dep =
     \<lparr>PortableType = p, LMSType = l, LMSSubtype = s, Description = d, Deprecated = dep\<rparr>"

record AssignmentTypeManager =
  mappings :: "string \<rightharpoonup> TypeMapping"
  aliases :: "string \<rightharpoonup> string"

definition directMappings :: "TypeMapping list" where
  "directMappings =
    [TM ''multiple-choice'' ''multiple-choice'' '''' ''Multiple choice questions'' False,
     TM ''true-false'' ''true-false'' '''' ''True/false questions'' False,
     TM ''matching'' ''matching'' '''' ''Match items from two lists'' False,
     TM ''writing-short'' ''writing'' '''' ''Short writing assignments'' False,
     TM ''writing-long'' ''writing-long'' '''' ''Extended writing assignments'' False,
     TM ''speaking'' ''speaking'' '''' ''Oral presentation assignments'' False,
     TM ''listening'' ''listening'' '''' ''Audio comprehension exercises'' False,
     TM ''code-submission'' ''code-submission'' '''' ''Programming assignments'' False,
     TM ''image-upload'' ''image-upload'' '''' ''Image upload assignments'' False,
     TM ''line-match'' ''line-match'' '''' ''Line matching exercises (LMS specific)'' False,
     TM ''phoneme-build'' ''phoneme-build'' '''' ''Phoneme building exercises (LMS specific)'' False,
     TM ''drag-drop-ordering'' ''drag-and-drop'' ''ordering'' ''Drag and drop ordering'' False,
     TM ''drag-drop-categorization'' ''drag-and-drop'' ''categorization''
        ''Drag and drop categorization'' False,
     TM ''drag-drop-fill-blank'' ''drag-and-drop'' ''fill-blank''
        ''Drag and drop fill in blanks'' False,
     TM ''drag-drop-labeling'' ''drag-and-drop'' ''labeling'' ''Drag and drop labeling'' False,
     TM ''drag-drop-image-caption'' ''drag-and-drop'' ''image-caption''
        ''Drag and drop image captions'' False,
     TM ''generic-assignment'' ''assignment'' '''' ''Generic assignment type'' False,
     TM ''essay'' ''writing-long'' '''' ''Essay assignment (mapped to writing-long)'' False,
     TM ''quiz'' ''multiple-choice'' '''' ''Quiz assignment (mapped to multiple-choice)'' False,
     TM ''presentation'' ''speaking'' '''' ''Presentation (mapped to speaking)'' False,
     TM ''comprehension'' ''listening'' '''' ''Comprehension exercise (mapped to listening)''
        False]"

text \<open>The entries of the map literal assigned to \<open>atm.aliases\<close> (its keys are distinct).\<close>

definition defaultAliases :: "(string \<times> string) list" where
  "defaultAliases =
    [(''mcq'', ''multiple-choice''),
     (''mc'', ''multiple-choice''),
     (''tf'', ''true-false''),
     (''t/f'', ''true-false''),
     (''match'', ''matching''),
     (''essay'', ''writing-long''),
     (''short-essay'', ''writing-short''),
     (''code'', ''code-submission''),
     (''programming'', ''code-submission''),
     (''drag-drop'', ''drag-drop-ordering''),
     (''dnd'', ''drag-drop-ordering''),
     (''oral'', ''speaking''),
     (''audio'', ''listening''),
     (''image'', ''image-upload''),
     (''upload'', ''image-upload'')]"

text \<open>
  \<open>initializeDefaultMappings\<close>: the loop stores every entry of \<open>directMappings\<close> under
  its portable type (a later entry would overwrite an earlier one with the same key),
  then the alias table is replaced by the literal.
\<close>

definition initializeDefaultMappings :: "AssignmentTypeManager \<Rightarrow> AssignmentTypeManager" where
  "initializeDefaultMappings atm =
     atm\<lparr>mappings := foldl (\<lambda>m mapping. m(PortableType mapping \<mapsto> mapping))
                           (mappings atm) directMappings,
         aliases := map_of defaultAliases\<rparr>"

definition NewAssignmentTypeManager :: AssignmentTypeManager where
  "NewAssignmentTypeManager =
     initializeDefaultMappings \<lparr>mappings = Map.empty, aliases = Map.empty\<rparr>"

text \<open>
  \<open>GetTypeManager\<close> creates the process-wide manager on first use and returns the same
  one afterwards; nothing in the program writes to its tables after construction.
\<close>

definition GetTypeManager :: AssignmentTypeManager where
  "GetTypeManager = NewAssignmentTypeManager"

datatype resolve_error = UnknownAssignmentType string

fun error_text :: "resolve_error \<Rightarrow> string" where
  "error_text (UnknownAssignmentType portableType) = ''unknown assignment type: '' @ portableType"

definition ResolveType ::
  "GoStrings \<Rightarrow> AssignmentTypeManager \<Rightarrow> string \<Rightarrow> resolve_error + TypeMapping" where
  "ResolveType L atm portableType =
     (let normalizedType = ToLower L (TrimSpace L portableType) in
      case mappings atm normalizedType of
        Some mapping \<Rightarrow> Inr mapping
      | None \<Rightarrow>
          (case aliases atm normalizedType of
             Some aliasTarget \<Rightarrow>
               (case mappings atm aliasTarget of
                  Some mapping \<Rightarrow> Inr mapping
                | None \<Rightarrow> Inl (UnknownAssignmentType portableType))
           | None \<Rightarrow> Inl (UnknownAssignmentType portableType)))"

definition ConvertToLMSFormat ::
  "GoStrings \<Rightarrow> AssignmentTypeManager \<Rightarrow> string \<Rightarrow> resolve_error + (string \<times> string)" where
  "ConvertToLMSFormat L atm portableType =
     (case ResolveType L atm portableType of
        Inl err \<Rightarrow> Inl err
      | Inr mapping \<Rightarrow> Inr (LMSType mapping, LMSSubtype mapping))"


text \<open>
  A \<open>range\<close> loop over a Go map visits every entry exactly once, in an order that the
  language leaves unspecified and that the runtime varies from one loop to the next.
  The loops of \<open>GetSuggestedTypes\<close> therefore take the order of visit as an argument;
  \<open>map_range m kvs\<close> says that \<open>kvs\<close> is one possible order of visit of the map \<open>m\<close>.
\<close>

definition map_range :: "('k \<rightharpoonup> 'v) \<Rightarrow> ('k \<times> 'v) list \<Rightarrow> bool" where
  "map_range m kvs = (distinct (map fst kvs) \<and> set kvs = Map.graph m)"

text \<open>
  \<open>GetSuggestedTypes\<close>: two loops collect candidates, a third removes duplicates with
  the \<open>seen\<close> table (a \<open>map[string]bool\<close>, whose lookup of an absent key is \<open>false\<close>).
  The result is a slice and there is no error result.
\<close>

definition GetSuggestedTypes ::
  "GoStrings \<Rightarrow> AssignmentTypeManager \<Rightarrow> (string \<times> TypeMapping) list
     \<Rightarrow> (string \<times> string) list \<Rightarrow> string \<Rightarrow> string list" where
  "GetSuggestedTypes L atm mappingsOrder aliasesOrder input0 =
     (let input = ToLower L input0;
          suggestions1 =
            foldl (\<lambda>suggestions (portableType, mapping).
                     if Contains portableType input \<or> Contains input portableType
                     then suggestions @ [portableType] else suggestions)
                  [] mappingsOrder;
          suggestions2 =
            foldl (\<lambda>suggestions (alias, target).
                     if Contains alias input \<or> Contains input alias
                     then suggestions @ [target] else suggestions)
                  suggestions1 aliasesOrder;
          (seen, unique) =
            foldl (\<lambda>(seen, unique) suggestion.
                     if \<not> seen suggestion
                     then (seen(suggestion := True), unique @ [suggestion])
                     else (seen, unique))
                  (\<lambda>_. False, []) suggestions2
      in unique)"


section \<open>The data model (types.go)\<close>

text \<open>
  A \<open>time.Time\<close> is only stored and formatted, never computed with; it is an integer time
  stamp here. A value of type \<open>interface{}\<close> is \<open>None\<close> for the nil interface and
  otherwise a tree of strings, integers, booleans, lists and maps. There are two kinds of
  map: \<open>VMap\<close> is a \<open>map[string]interface{}\<close>, which is what the wizard builds for the
  questions, and \<open>VMapIface\<close> is a \<open>map[interface{}]interface{}\<close>, which is what the YAML
  decoder of \<open>loadAssignmentPackage\<close> (\<open>gopkg.in/yaml.v2\<close>) makes of a mapping. Go's \<open>int\<close> is modelled as
  \<^typ>\<open>int\<close>: the program only compares points with zero and subtracts at most 65 from
  a score of 100, so no operation can leave the machine range. A \<open>map[string]string\<close> is a
  partial function; a pointer to an optional scalar is an \<^typ>\<open>'a option\<close>.
\<close>

type_synonym Time = int

datatype GoValue =
    VString string
  | VInt int
  | VBool bool
  | VList "GoValue list"
  | VMap "(string \<times> GoValue) list"
  | VMapIface "(GoValue \<times> GoValue) list"

record PackageMetadata =
  ID :: string
  Version :: string
  Created :: Time
  Modified :: Time
  Author :: string
  Email :: string
  License :: string
  Tags :: "string list"
  Description :: string
  Language :: string
  SourceHash :: string
  Custom :: "string \<rightharpoonup> string"

record Assignment =
  Title :: string
  Description :: string
  Type :: string
  Subtype :: string
  Category :: string
  Difficulty :: string
  Questions :: "GoValue option"
  Instructions :: string
  Criteria :: string
  CodeSubmissionConfig :: "GoValue option"
  Points :: int
  TimeLimit :: "int option"
  MaxAttempts :: "int option"
  AutoGrade :: bool
  ShowFeedback :: bool
  ShuffleQuestions :: bool
  AllowReview :: bool
  DueDate :: "Time option"
  AvailableFrom :: "Time option"
  AvailableTo :: "Time option"
  Quarter :: string
  TrackAttempts :: bool
  TrackConfidence :: bool
  TrackTimeSpent :: bool
  LearningObjectives :: "string list"
  Prerequisites :: "string list"
  RecommendedCourses :: "string list"
  Tags :: "string list"
  Published :: bool

record Resource =
  ID :: string
  Title :: string
  Description :: string
  Type :: string
  LocalPath :: string
  URL :: string
  FileSize :: int
  MimeType :: string
  Checksum :: string
  Tags :: "string list"
  Order :: int
  IsPublic :: bool
  Metadata :: "string \<rightharpoonup> string"

record SoftwareRequirement =
  Name :: string
  Version :: string
  Description :: string
  Required :: bool

record Dependencies =
  Subjects :: "string list"
  Prerequisites :: "string list"
  RecommendedCourses :: "string list"
  RequiredResources :: "string list"
  SoftwareRequirements :: "SoftwareRequirement list"

record ValidationInfo =
  IsValid :: bool
  ValidatedAt :: Time
  ValidatorVersion :: string
  Errors :: "string list"
  Warnings :: "string list"
  Score :: int

record AssignmentPackage =
  Metadata :: PackageMetadata
  Assignment :: Assignment
  Resources :: "Resource list"
  Dependencies :: Dependencies
  Validation :: ValidationInfo

record ImportResult =
  AssignmentID :: string
  ResourceIDs :: "string list"
  Conflicts :: "string list"
  Status :: string
  Message :: string
  Metadata :: "string \<rightharpoonup> string"

record BatchImportResult =
  BatchID :: string
  TotalCount :: int
  SuccessCount :: int
  FailureCount :: int
  Results :: "ImportResult list"
  StartedAt :: Time
  CompletedAt :: Time

text \<open>The zero values \<open>Assignment{}\<close> and \<open>AssignmentPackage{}\<close>, from which examples are built.\<close>

definition zeroAssignment :: Assignment where
  "zeroAssignment =
     \<lparr>Assignment.Title = [], Assignment.Description = [], Assignment.Type = [], Subtype = [],
      Category = [], Difficulty = [], Questions = None, Instructions = [], Criteria = [],
      CodeSubmissionConfig = None, Points = 0, TimeLimit = None, MaxAttempts = None,
      AutoGrade = False, ShowFeedback = False, ShuffleQuestions = False, AllowReview = False,
      DueDate = None, AvailableFrom = None, AvailableTo = None, Quarter = [],
      TrackAttempts = False, TrackConfidence = False, TrackTimeSpent = False,
      LearningObjectives = [], Assignment.Prerequisites = [],
      Assignment.RecommendedCourses = [], Assignment.Tags = [], Published = False\<rparr>"

definition zeroPackage :: AssignmentPackage where
  "zeroPackage =
     \<lparr>AssignmentPackage.Metadata =
        \<lparr>PackageMetadata.ID = [], PackageMetadata.Version = [], Created = 0, Modified = 0,
         Author = [], Email = [], License = [], PackageMetadata.Tags = [],
         PackageMetadata.Description = [], Language = [], SourceHash = [],
         Custom = Map.empty\<rparr>,
      Assignment = zeroAssignment,
      Resources = [],
      Dependencies =
        \<lparr>Subjects = [], Dependencies.Prerequisites = [], Dependencies.RecommendedCourses = [],
         RequiredResources = [], SoftwareRequirements = []\<rparr>,
      Validation =
        \<lparr>IsValid = False, ValidatedAt = 0, ValidatorVersion = [], Errors = [], Warnings = [],
         Score = 0\<rparr>\<rparr>"


section \<open>The package validator (commands.go)\<close>

text \<open>
  \<open>validateAssignmentPackage\<close> reads the clock once (\<open>now\<close>) and then applies its checks in
  order, each updating the result in place. The \<open>switch\<close> on the type has the two cases
  of the source and no default.
\<close>

definition validateAssignmentPackage :: "Time \<Rightarrow> AssignmentPackage \<Rightarrow> ValidationInfo" where
  "validateAssignmentPackage now pkg =
    (let validation0 =
           \<lparr>IsValid = True, ValidatedAt = now, ValidatorVersion = ''1.0.0'',
            Errors = [], Warnings = [], Score = 100\<rparr>;
         validation1 =
           (if Assignment.Title (Assignment pkg) = []
            then validation0\<lparr>Errors := Errors validation0 @ [''Assignment title is required''],
                             IsValid := False, Score := Score validation0 - 20\<rparr>
            else validation0);
         validation2 =
           (if Assignment.Type (Assignment pkg) = []
            then validation1\<lparr>Errors := Errors validation1 @ [''Assignment type is required''],
                             IsValid := False, Score := Score validation1 - 20\<rparr>
            else validation1);
         validation3 =
           (if Assignment.Type (Assignment pkg) = ''multiple-choice''
            then (if Questions (Assignment pkg) = None
                  then validation2\<lparr>Errors := Errors validation2
                                          @ [''Multiple choice questions are required''],
                                   IsValid := False, Score := Score validation2 - 30\<rparr>
                  else validation2)
            else if Assignment.Type (Assignment pkg) = ''matching''
            then (if Questions (Assignment pkg) = None
                  then validation2\<lparr>Errors := Errors validation2
                                          @ [''Matching items are required''],
                                   IsValid := False, Score := Score validation2 - 30\<rparr>
                  else validation2)
            else validation2);
         validation4 =
           (if Assignment.Description (Assignment pkg) = []
            then validation3\<lparr>Warnings := Warnings validation3
                                    @ [''Assignment description is recommended''],
                             Score := Score validation3 - 5\<rparr>
            else validation3);
         validation5 =
           (if Points (Assignment pkg) \<le> 0
            then validation4\<lparr>Warnings := Warnings validation4
                                    @ [''Assignment should have positive points''],
                             Score := Score validation4 - 10\<rparr>
            else validation4)
     in validation5)"


section \<open>The content hash (commands.go)\<close>

text \<open>
  \<open>calculateHash\<close> serialises the assignment body with \<open>json.Marshal\<close>, discards the
  error result (on failure the data is the nil slice), hashes with \<open>sha256.Sum256\<close> and
  prints the 32 bytes with the verb \<open>%x\<close>: two lower-case hexadecimal digits per byte.
  The two library functions are parameters; the 32-byte array is a 256-bit word whose
  most significant byte is the first byte of the array.
\<close>




definition hex_digit :: "nat \<Rightarrow> char" where
  "hex_digit n = ''0123456789abcdef'' ! n"

definition nibble :: "256 word \<Rightarrow> nat \<Rightarrow> nat" where
  "nibble h i = unat (take_bit 4 (drop_bit (4 * i) h))"

definition hex_digest :: "256 word \<Rightarrow> string" where
  "hex_digest h = map (\<lambda>i. hex_digit (nibble h i)) (rev [0..<64])"

definition calculateHash ::
  "(Assignment \<Rightarrow> string + string) \<Rightarrow> (string \<Rightarrow> 256 word) \<Rightarrow> AssignmentPackage \<Rightarrow> string" where
  "calculateHash json_Marshal sha256_Sum256 pkg =
     (let data = (case json_Marshal (Assignment pkg) of Inl err \<Rightarrow> [] | Inr d \<Rightarrow> d);
          hash = sha256_Sum256 data
      in hex_digest hash)"


section \<open>The format converter and the sync client (sync.go)\<close>

text \<open>
  The wire record is a \<open>map[string]interface{}\<close>; its values are strings, integers,
  booleans, string lists, the free-form payloads, and one time stamp.
\<close>

datatype WireValue =
    WString string
  | WInt int
  | WBool bool
  | WStrings "string list"
  | WValue "GoValue option"
  | WTime Time

text \<open>
  \<open>convertToLMSFormat\<close> reads the clock (\<open>now\<close>) and formats times with
  \<open>Format(time.RFC3339)\<close>, a parameter here. It has no error result.
\<close>

definition convertToLMSFormat ::
  "GoStrings \<Rightarrow> (Time \<Rightarrow> string) \<Rightarrow> Time \<Rightarrow> AssignmentPackage \<Rightarrow> (string \<rightharpoonup> WireValue)" where
  "convertToLMSFormat L rfc3339 now pkg =
    (let assignment = Assignment pkg;
         typeManager = GetTypeManager;
         (lmsType, lmsSubtype) =
           (case ConvertToLMSFormat L typeManager (Assignment.Type assignment) of
              Inr (t, st) \<Rightarrow> (t, st)
            | Inl err \<Rightarrow> (Assignment.Type assignment, Subtype assignment));
         lmsAssignment0 =
           [''title'' \<mapsto> WString (Assignment.Title assignment),
            ''description'' \<mapsto> WString (Assignment.Description assignment),
            ''type'' \<mapsto> WString lmsType,
            ''subtype'' \<mapsto> WString lmsSubtype,
            ''category'' \<mapsto> WString (Category assignment),
            ''difficulty'' \<mapsto> WString (Difficulty assignment),
            ''points'' \<mapsto> WInt (Points assignment),
            ''instructions'' \<mapsto> WString (Instructions assignment),
            ''criteria'' \<mapsto> WString (Criteria assignment),
            ''autoGrade'' \<mapsto> WBool (AutoGrade assignment),
            ''showFeedback'' \<mapsto> WBool (ShowFeedback assignment),
            ''shuffleQuestions'' \<mapsto> WBool (ShuffleQuestions assignment),
            ''allowReview'' \<mapsto> WBool (AllowReview assignment),
            ''published'' \<mapsto> WBool (Published assignment),
            ''quarter'' \<mapsto> WString (Quarter assignment),
            ''trackAttempts'' \<mapsto> WBool (TrackAttempts assignment),
            ''trackConfidence'' \<mapsto> WBool (TrackConfidence assignment),
            ''trackTimeSpent'' \<mapsto> WBool (TrackTimeSpent assignment),
            ''learningObjectives'' \<mapsto> WStrings (LearningObjectives assignment),
            ''prerequisites'' \<mapsto> WStrings (Assignment.Prerequisites assignment),
            ''recommendedCourses'' \<mapsto> WStrings (Assignment.RecommendedCourses assignment),
            ''tags'' \<mapsto> WStrings (Assignment.Tags assignment),
            ''questions'' \<mapsto> WValue (Questions assignment),
            ''codeSubmissionConfig'' \<mapsto> WValue (CodeSubmissionConfig assignment),
            ''templateId'' \<mapsto> WString (PackageMetadata.ID (AssignmentPackage.Metadata pkg)),
            ''version'' \<mapsto> WString (PackageMetadata.Version (AssignmentPackage.Metadata pkg)),
            ''sourceHash'' \<mapsto> WString (SourceHash (AssignmentPackage.Metadata pkg)),
            ''importedFrom'' \<mapsto> WString ''assignment-toolkit'',
            ''importedAt'' \<mapsto> WTime now];
         lmsAssignment1 =
           (case DueDate assignment of
              Some d \<Rightarrow> lmsAssignment0(''dueDate'' \<mapsto> WString (rfc3339 d))
            | None \<Rightarrow> lmsAssignment0);
         lmsAssignment2 =
           (case AvailableFrom assignment of
              Some d \<Rightarrow> lmsAssignment1(''availableFrom'' \<mapsto> WString (rfc3339 d))
            | None \<Rightarrow> lmsAssignment1);
         lmsAssignment3 =
           (case AvailableTo assignment of
              Some d \<Rightarrow> lmsAssignment2(''availableTo'' \<mapsto> WString (rfc3339 d))
            | None \<Rightarrow> lmsAssignment2);
         lmsAssignment4 =
           (case TimeLimit assignment of
              Some n \<Rightarrow> lmsAssignment3(''timeLimit'' \<mapsto> WInt n)
            | None \<Rightarrow> lmsAssignment3);
         lmsAssignment5 =
           (case MaxAttempts assignment of
              Some n \<Rightarrow> lmsAssignment4(''maxAttempts'' \<mapsto> WInt n)
            | None \<Rightarrow> lmsAssignment4)
     in lmsAssignment5)"


text \<open>
  The sync client talks to the outside world. The world is a state \<open>'w\<close> threaded through
  every operation that reads or changes it, and the operations that the program does not
  implement itself are the fields of an environment record:
  \<^item> \<open>time_Now\<close> and \<open>uuid_New\<close> read the clock and draw a random identifier;
  \<^item> \<open>marshal_wire\<close> is \<open>json.Marshal\<close> on the wire record (error message or bytes);
  \<^item> \<open>http_post\<close> stands for \<open>http.NewRequest\<close>, \<open>HTTPClient.Do\<close> and \<open>ioutil.ReadAll\<close> on
    the URL, the bearer key and the body: one of their three errors, or the status code
    and the body of the response;
  \<^item> \<open>unmarshal_response\<close> is \<open>json.Unmarshal\<close> on the response body (error message, or the assignment id and
    the message);
  \<^item> \<open>upload_file\<close> is \<open>uploadResource\<close>, which reads a local file and posts it (error
    message or resource id).
  \<open>uuid.New\<close> panics when the operating system's random source fails; the model leaves
  that out.
\<close>

record LMSClient =
  BaseURL :: string
  APIKey :: string

datatype http_outcome =
    RequestError string
  | SendError string
  | ReadError string
  | Response int string

record 'w Env =
  strings_lib :: GoStrings
  time_Format_RFC3339 :: "Time \<Rightarrow> string"
  time_Now :: "'w \<Rightarrow> Time \<times> 'w"
  uuid_New :: "'w \<Rightarrow> string \<times> 'w"
  marshal_wire :: "(string \<rightharpoonup> WireValue) \<Rightarrow> string + string"
  http_post :: "'w \<Rightarrow> string \<Rightarrow> string \<Rightarrow> string \<Rightarrow> http_outcome \<times> 'w"
  unmarshal_response :: "string \<Rightarrow> string + (string \<times> string)"
  upload_file :: "'w \<Rightarrow> LMSClient \<Rightarrow> string \<Rightarrow> Resource \<Rightarrow> (string + string) \<times> 'w"

text \<open>The verb \<open>%d\<close> on an \<open>int\<close>: decimal digits, with a minus sign for a negative number.\<close>

fun show_nat :: "nat \<Rightarrow> string" where
  "show_nat n =
     (if n < 10 then [char_of (48 + n)]
      else show_nat (n div 10) @ [char_of (48 + n mod 10)])"

definition show_int :: "int \<Rightarrow> string" where
  "show_int i = (if i < 0 then ''-'' @ show_nat (nat (- i)) else show_nat (nat i))"

text \<open>
  \<open>uploadResources\<close>: resources without a local path are skipped; the first failing upload
  ends the loop and returns the ids collected so far together with the error.
\<close>

fun uploadResources ::
  "'w Env \<Rightarrow> LMSClient \<Rightarrow> string \<Rightarrow> Resource list \<Rightarrow> string list \<Rightarrow> 'w
     \<Rightarrow> (string list \<times> string option) \<times> 'w" where
  "uploadResources env c assignmentID [] resourceIDs w = ((resourceIDs, None), w)"
| "uploadResources env c assignmentID (resource # resources) resourceIDs w =
     (if LocalPath resource = []
      then uploadResources env c assignmentID resources resourceIDs w
      else (case upload_file env w c assignmentID resource of
              (Inl err, w') \<Rightarrow>
                ((resourceIDs,
                  Some (''failed to upload '' @ Resource.Title resource @ '': '' @ err)), w')
            | (Inr resourceID, w') \<Rightarrow>
                uploadResources env c assignmentID resources (resourceIDs @ [resourceID]) w'))"

text \<open>
  \<open>SyncAssignment\<close> returns either an error (\<open>Inl\<close>, the message) or an \<open>ImportResult\<close>.
\<close>

definition SyncAssignment ::
  "'w Env \<Rightarrow> LMSClient \<Rightarrow> 'w \<Rightarrow> AssignmentPackage \<Rightarrow> (string + ImportResult) \<times> 'w" where
  "SyncAssignment env c w pkg =
    (let (now, w1) = time_Now env w;
         lmsAssignment = convertToLMSFormat (strings_lib env) (time_Format_RFC3339 env) now pkg
     in case marshal_wire env lmsAssignment of
          Inl err \<Rightarrow> (Inl (''failed to marshal assignment: '' @ err), w1)
        | Inr jsonData \<Rightarrow>
            (let url = BaseURL c @ ''/api/assignments''
             in case http_post env w1 url (APIKey c) jsonData of
                  (RequestError err, w2) \<Rightarrow> (Inl (''failed to create request: '' @ err), w2)
                | (SendError err, w2) \<Rightarrow> (Inl (''failed to send request: '' @ err), w2)
                | (ReadError err, w2) \<Rightarrow> (Inl (''failed to read response: '' @ err), w2)
                | (Response statusCode body, w2) \<Rightarrow>
                    (if statusCode \<noteq> 200 \<and> statusCode \<noteq> 201
                     then (Inl (''API error ('' @ show_int statusCode @ ''): '' @ body), w2)
                     else (case unmarshal_response env body of
                             Inl err \<Rightarrow> (Inl (''failed to parse response: '' @ err), w2)
                           | Inr (assignmentID, message) \<Rightarrow>
                               (let result =
                                      \<lparr>AssignmentID = assignmentID, ResourceIDs = [],
                                       Conflicts = [], Status = ''success'',
                                       Message = message, ImportResult.Metadata = Map.empty\<rparr>
                                in if length (Resources pkg) > 0
                                   then (case uploadResources env c assignmentID
                                                (Resources pkg) [] w2 of
                                           ((resourceIDs, Some err), w3) \<Rightarrow>
                                             (Inr (result\<lparr>Status := ''partial'',
                                                     Message := Message result
                                                       @ '' Warning: Resource upload failed: ''
                                                       @ err\<rparr>), w3)
                                         | ((resourceIDs, None), w3) \<Rightarrow>
                                             (Inr (result\<lparr>ResourceIDs := resourceIDs\<rparr>), w3))
                                   else (Inr result, w2))))))"

text \<open>
  \<open>BatchSyncAssignments\<close>: the loop over the packages, with the result record updated in
  place, between the two readings of the clock. Its error result is always nil.
\<close>

fun batch_loop ::
  "'w Env \<Rightarrow> LMSClient \<Rightarrow> AssignmentPackage list \<Rightarrow> BatchImportResult \<Rightarrow> 'w
     \<Rightarrow> BatchImportResult \<times> 'w" where
  "batch_loop env c [] result w = (result, w)"
| "batch_loop env c (pkg # packages) result w =
     (case SyncAssignment env c w pkg of
        (Inl err, w') \<Rightarrow>
          batch_loop env c packages
            (result\<lparr>FailureCount := FailureCount result + 1,
                    Results := Results result
                      @ [\<lparr>AssignmentID = [], ResourceIDs = [], Conflicts = [],
                          Status = ''failed'', Message = err,
                          ImportResult.Metadata = Map.empty\<rparr>]\<rparr>) w'
      | (Inr importResult, w') \<Rightarrow>
          batch_loop env c packages
            (result\<lparr>SuccessCount := SuccessCount result + 1,
                    Results := Results result @ [importResult]\<rparr>) w')"

definition BatchSyncAssignments ::
  "'w Env \<Rightarrow> LMSClient \<Rightarrow> 'w \<Rightarrow> AssignmentPackage list \<Rightarrow> BatchImportResult \<times> 'w" where
  "BatchSyncAssignments env c w packages =
    (let (batchID, w1) = uuid_New env w;
         (startedAt, w2) = time_Now env w1;
         result0 =
           \<lparr>BatchID = batchID, TotalCount = int (length packages), SuccessCount = 0,
            FailureCount = 0, Results = [], StartedAt = startedAt, CompletedAt = 0\<rparr>;
         (result1, w3) = batch_loop env c packages result0 w2;
         (completedAt, w4) = time_Now env w3
     in (result1\<lparr>CompletedAt := completedAt\<rparr>, w4))"


section \<open>Auxiliary definitions for the proofs\<close>

text \<open>
  Auxiliary notions for the proofs: the list of canonical keys in table order, and the
  characters that normalisation leaves alone (ASCII, not an upper-case letter, not
  white space).
\<close>

definition canonicalKeys :: "string list" where
  "canonicalKeys = map PortableType directMappings"

definition plain_char :: "char \<Rightarrow> bool" where
  "plain_char c =
     ((of_char c :: nat) < 128
      \<and> \<not> (65 \<le> (of_char c :: nat) \<and> (of_char c :: nat) \<le> 90)
      \<and> \<not> ascii_space c)"


text \<open>
  The three conditions under which the validator records a blocking error, and the
  package on which it deducts the most: a multiple-choice assignment that lacks a title,
  questions and a description and has zero points.
\<close>

definition title_missing :: "AssignmentPackage \<Rightarrow> bool" where
  "title_missing pkg = (Assignment.Title (Assignment pkg) = [])"

definition type_missing :: "AssignmentPackage \<Rightarrow> bool" where
  "type_missing pkg = (Assignment.Type (Assignment pkg) = [])"

definition questions_missing :: "AssignmentPackage \<Rightarrow> bool" where
  "questions_missing pkg =
     ((Assignment.Type (Assignment pkg) = ''multiple-choice''
       \<or> Assignment.Type (Assignment pkg) = ''matching'')
      \<and> Questions (Assignment pkg) = None)"

text \<open>
  Each check of the validator has one of two shapes, named here so that the proofs can
  treat the checks one at a time (\<open>validate_steps\<close> below shows that the validator is
  their composition).
\<close>

definition blocking :: "bool \<Rightarrow> string \<Rightarrow> int \<Rightarrow> ValidationInfo \<Rightarrow> ValidationInfo" where
  "blocking c msg n v =
     (if c then v\<lparr>Errors := Errors v @ [msg], IsValid := False, Score := Score v - n\<rparr> else v)"

definition warning :: "bool \<Rightarrow> string \<Rightarrow> int \<Rightarrow> ValidationInfo \<Rightarrow> ValidationInfo" where
  "warning c msg n v =
     (if c then v\<lparr>Warnings := Warnings v @ [msg], Score := Score v - n\<rparr> else v)"

definition worstPackage :: AssignmentPackage where
  "worstPackage =
     zeroPackage\<lparr>Assignment := zeroAssignment\<lparr>Assignment.Type := ''multiple-choice''\<rparr>\<rparr>"


text \<open>
  The type and subtype that the converter writes into the wire record, and two example
  packages: one with a type that the registry does not know, one with a resolvable type
  and a subtype of its own.
\<close>

definition wire_type_pair :: "GoStrings \<Rightarrow> Assignment \<Rightarrow> string \<times> string" where
  "wire_type_pair L assignment =
     (case ConvertToLMSFormat L GetTypeManager (Assignment.Type assignment) of
        Inr (t, st) \<Rightarrow> (t, st)
      | Inl err \<Rightarrow> (Assignment.Type assignment, Subtype assignment))"

definition unknownTypePackage :: AssignmentPackage where
  "unknownTypePackage =
     zeroPackage\<lparr>Assignment :=
       zeroAssignment\<lparr>Assignment.Type := ''Hologram'', Subtype := ''3d''\<rparr>\<rparr>"

definition essayPackage :: AssignmentPackage where
  "essayPackage =
     zeroPackage\<lparr>Assignment :=
       zeroAssignment\<lparr>Assignment.Type := ''essay'', Subtype := ''argumentative''\<rparr>\<rparr>"


text \<open>
  For the suggestion search: the containment test of the two collecting loops, the step of
  the loop that removes duplicates, two orders in which a loop may visit the canonical
  table (the order of the table's literal and its reverse), and the five drag-and-drop
  portable types.
\<close>

definition matches :: "string \<Rightarrow> string \<Rightarrow> bool" where
  "matches input candidate = (Contains candidate input \<or> Contains input candidate)"

definition dedup_step ::
  "(string \<Rightarrow> bool) \<times> string list \<Rightarrow> string \<Rightarrow> (string \<Rightarrow> bool) \<times> string list" where
  "dedup_step = (\<lambda>(seen, unique) suggestion.
                     if \<not> seen suggestion
                     then (seen(suggestion := True), unique @ [suggestion])
                     else (seen, unique))"

definition tableOrder :: "(string \<times> TypeMapping) list" where
  "tableOrder = map (\<lambda>m. (PortableType m, m)) directMappings"

definition reverseOrder :: "(string \<times> TypeMapping) list" where
  "reverseOrder = rev tableOrder"

definition dragDropTypes :: "string list" where
  "dragDropTypes =
     [''drag-drop-ordering'', ''drag-drop-categorization'', ''drag-drop-fill-blank'',
      ''drag-drop-labeling'', ''drag-drop-image-caption'']"


text \<open>
  For the content hash: the bytes that are hashed; a serialiser and a hash function with
  which an example can be evaluated (the serialiser fails where \<open>json.Marshal\<close> is known
  to fail); and two packages as \<open>loadAssignmentPackage\<close> returns them for two YAML
  documents whose \<open>questions\<close> mappings differ.
\<close>

definition hash_input :: "(Assignment \<Rightarrow> string + string) \<Rightarrow> Assignment \<Rightarrow> string" where
  "hash_input json_Marshal a = (case json_Marshal a of Inl err \<Rightarrow> [] | Inr d \<Rightarrow> d)"





text \<open>The zero package with a given title.\<close>

definition titled :: "string \<Rightarrow> AssignmentPackage" where
  "titled s = zeroPackage\<lparr>Assignment := zeroAssignment\<lparr>Assignment.Title := s\<rparr>\<rparr>"


text \<open>
  For the batch synchronisation: the \<open>ImportResult\<close> recorded for a failed item, the list
  of what \<open>SyncAssignment\<close> returns for each package in turn (each call starting in the
  world that the previous call left), and the world in which the loop starts. The
  example is a world that is a script of HTTP outcomes, consumed one per request, with
  three packages of which the second meets a network failure.
\<close>

definition failed_result :: "string \<Rightarrow> ImportResult" where
  "failed_result err =
     \<lparr>AssignmentID = [], ResourceIDs = [], Conflicts = [], Status = ''failed'', Message = err,
      ImportResult.Metadata = Map.empty\<rparr>"

fun as_result :: "string + ImportResult \<Rightarrow> ImportResult" where
  "as_result (Inl err) = failed_result err"
| "as_result (Inr importResult) = importResult"

fun sync_outcomes ::
  "'w Env \<Rightarrow> LMSClient \<Rightarrow> 'w \<Rightarrow> AssignmentPackage list \<Rightarrow> (string + ImportResult) list" where
  "sync_outcomes env c w [] = []"
| "sync_outcomes env c w (pkg # packages) =
     fst (SyncAssignment env c w pkg)
       # sync_outcomes env c (snd (SyncAssignment env c w pkg)) packages"

definition batch_start :: "'w Env \<Rightarrow> 'w \<Rightarrow> 'w" where
  "batch_start env w = snd (time_Now env (snd (uuid_New env w)))"

definition scriptedEnv :: "(http_outcome list) Env" where
  "scriptedEnv =
     \<lparr>strings_lib = ascii_strings,
      time_Format_RFC3339 = (\<lambda>t. []),
      time_Now = (\<lambda>w. (0, w)),
      uuid_New = (\<lambda>w. (''batch-1'', w)),
      marshal_wire = (\<lambda>m. Inr ''{}''),
      http_post = (\<lambda>w url key body.
         case w of [] \<Rightarrow> (SendError ''no network'', []) | r # rs \<Rightarrow> (r, rs)),
      unmarshal_response = (\<lambda>body. Inr (body, ''created'')),
      upload_file = (\<lambda>w c assignmentID resource. (Inl ''no file'', w))\<rparr>"

definition exampleClient :: LMSClient where
  "exampleClient = \<lparr>BaseURL = ''https://lms.example'', APIKey = ''key''\<rparr>"

definition secondFails :: "http_outcome list" where
  "secondFails = [Response 201 ''a1'', SendError ''connection reset'', Response 200 ''a3'']"

definition threePackages :: "AssignmentPackage list" where
  "threePackages = [titled ''one'', titled ''two'', titled ''three'']"



section \<open>Properties of the string functions\<close>

lemma ascii_ToLower_plain: "list_all plain_char s \<Longrightarrow> ascii_ToLower s = s"
  by (induction s) (auto simp: ascii_ToLower_def ascii_lower_def plain_char_def)

lemma dropWhile_plain: "list_all plain_char s \<Longrightarrow> dropWhile ascii_space s = s"
  by (cases s) (auto simp: plain_char_def)

lemma ascii_TrimSpace_plain: "list_all plain_char s \<Longrightarrow> ascii_TrimSpace s = s"
proof -
  assume p: "list_all plain_char s"
  then have "list_all plain_char (rev s)" by (simp add: list_all_iff)
  with p show ?thesis by (simp add: ascii_TrimSpace_def dropWhile_plain)
qed

lemma is_ascii_plain: "list_all plain_char s \<Longrightarrow> is_ascii s"
  by (auto simp: is_ascii_def list_all_iff plain_char_def)

lemma normalize_plain:
  assumes "go_strings L" and "list_all plain_char s"
  shows "ToLower L (TrimSpace L s) = s"
  using assms is_ascii_plain[OF assms(2)]
  by (simp add: go_strings_def ascii_TrimSpace_plain ascii_ToLower_plain)

lemma go_strings_ascii: "go_strings ascii_strings"
  by (simp add: go_strings_def ascii_strings_def)


section \<open>Properties of the type registry\<close>

subsection \<open>The tables built by the constructor\<close>

lemma foldl_upd_dom:
  "dom (foldl (\<lambda>m x. m(f x \<mapsto> x)) m0 xs) = dom m0 \<union> f ` set xs"
  by (induction xs arbitrary: m0) auto

lemma foldl_upd_Some:
  "foldl (\<lambda>m x. m(f x \<mapsto> x)) m0 xs k = Some v
   \<Longrightarrow> (v \<in> set xs \<and> f v = k) \<or> m0 k = Some v"
proof (induction xs arbitrary: m0)
  case Nil
  then show ?case by simp
next
  case (Cons a xs)
  from Cons.prems have "foldl (\<lambda>m x. m(f x \<mapsto> x)) (m0(f a \<mapsto> a)) xs k = Some v"
    by (simp only: foldl_Cons)
  from Cons.IH[OF this] show ?case
    by (cases "k = f a") auto
qed

lemma mappings_dom: "dom (mappings NewAssignmentTypeManager) = set canonicalKeys"
  by (simp add: NewAssignmentTypeManager_def initializeDefaultMappings_def foldl_upd_dom
      canonicalKeys_def)

lemma mappings_Some:
  "mappings NewAssignmentTypeManager k = Some v
   \<Longrightarrow> v \<in> set directMappings \<and> PortableType v = k"
  using foldl_upd_Some[of PortableType Map.empty directMappings k v]
  by (simp add: NewAssignmentTypeManager_def initializeDefaultMappings_def)

lemma canonicalKeys_eval: "canonicalKeys =
  [''multiple-choice'', ''true-false'', ''matching'', ''writing-short'', ''writing-long'',
   ''speaking'', ''listening'', ''code-submission'', ''image-upload'', ''line-match'',
   ''phoneme-build'', ''drag-drop-ordering'', ''drag-drop-categorization'',
   ''drag-drop-fill-blank'', ''drag-drop-labeling'', ''drag-drop-image-caption'',
   ''generic-assignment'', ''essay'', ''quiz'', ''presentation'', ''comprehension'']"
  by (simp add: canonicalKeys_def directMappings_def TM_def)

lemma canonicalKeys_plain: "list_all (list_all plain_char) canonicalKeys"
  by (simp add: canonicalKeys_eval plain_char_def ascii_space_def)

lemma directMappings_LMSType: "list_all (\<lambda>m. LMSType m \<noteq> []) directMappings"
  by (simp add: directMappings_def TM_def)

lemma aliases_New: "aliases NewAssignmentTypeManager = map_of defaultAliases"
  by (simp add: NewAssignmentTypeManager_def initializeDefaultMappings_def)

lemma alias_entry:
  "aliases NewAssignmentTypeManager a = Some t \<Longrightarrow> (a, t) \<in> set defaultAliases"
  by (simp add: aliases_New map_of_SomeD)

lemma alias_targets_canonical:
  "list_all (\<lambda>(a, t). t \<in> set canonicalKeys) defaultAliases"
  by (simp add: defaultAliases_def canonicalKeys_eval)

lemma alias_keys_canonical:
  "filter (\<lambda>(a, t). a \<in> set canonicalKeys) defaultAliases = [(''essay'', ''writing-long'')]"
  by (simp add: defaultAliases_def canonicalKeys_eval)

lemma alias_entries_plain:
  "list_all (\<lambda>(a, t). list_all plain_char a) defaultAliases"
  by (simp add: defaultAliases_def plain_char_def ascii_space_def)

lemma alias_target_in_dom:
  assumes "aliases NewAssignmentTypeManager a = Some t"
  shows "t \<in> dom (mappings NewAssignmentTypeManager)"
  using alias_entry[OF assms] alias_targets_canonical
  by (auto simp: mappings_dom list_all_iff)

lemma alias_key_collision:
  assumes "aliases NewAssignmentTypeManager a = Some t"
    and "a \<in> dom (mappings NewAssignmentTypeManager)"
  shows "a = ''essay''"
proof -
  from assms have "(a, t) \<in> set (filter (\<lambda>(a, t). a \<in> set canonicalKeys) defaultAliases)"
    using alias_entry[OF assms(1)] by (simp add: mappings_dom)
  then show ?thesis by (simp add: alias_keys_canonical)
qed

lemma lookup_essay: "mappings NewAssignmentTypeManager ''essay'' =
    Some (TM ''essay'' ''writing-long'' [] ''Essay assignment (mapped to writing-long)'' False)"
  by (simp add: NewAssignmentTypeManager_def initializeDefaultMappings_def directMappings_def
      TM_def)

lemma lookup_writing_long: "mappings NewAssignmentTypeManager ''writing-long'' =
    Some (TM ''writing-long'' ''writing-long'' [] ''Extended writing assignments'' False)"
  by (simp add: NewAssignmentTypeManager_def initializeDefaultMappings_def directMappings_def
      TM_def)

lemma lookup_labeling: "mappings NewAssignmentTypeManager ''drag-drop-labeling'' =
    Some (TM ''drag-drop-labeling'' ''drag-and-drop'' ''labeling'' ''Drag and drop labeling''
            False)"
  by (simp add: NewAssignmentTypeManager_def initializeDefaultMappings_def directMappings_def
      TM_def)

lemma alias_essay: "aliases NewAssignmentTypeManager ''essay'' = Some ''writing-long''"
  by (simp add: aliases_New defaultAliases_def)

lemma alias_dnd: "aliases NewAssignmentTypeManager ''dnd'' = Some ''drag-drop-ordering''"
  by (simp add: aliases_New defaultAliases_def)

subsection \<open>Resolution\<close>

lemma resolve_plain:
  assumes "go_strings L" and "list_all plain_char k"
  shows "ResolveType L atm k =
     (case mappings atm k of
        Some mapping \<Rightarrow> Inr mapping
      | None \<Rightarrow>
          (case aliases atm k of
             Some aliasTarget \<Rightarrow>
               (case mappings atm aliasTarget of
                  Some mapping \<Rightarrow> Inr mapping
                | None \<Rightarrow> Inl (UnknownAssignmentType k))
           | None \<Rightarrow> Inl (UnknownAssignmentType k)))"
  by (simp add: ResolveType_def normalize_plain[OF assms])

lemma resolve_canonical:
  assumes "go_strings L" and "mappings NewAssignmentTypeManager t = Some mapping"
  shows "ResolveType L NewAssignmentTypeManager t = Inr mapping"
proof -
  from assms(2) have "t \<in> set canonicalKeys" using mappings_dom by blast
  with canonicalKeys_plain have "list_all plain_char t" by (simp add: list_all_iff)
  from resolve_plain[OF assms(1) this] assms(2) show ?thesis by simp
qed

text \<open>
  \<^bold>\<open>Claim C1\<close>, as amended. The claim says that an alias resolves to the same
  \<open>TypeMapping\<close> as its target. For every alias \<open>a\<close> with target \<open>t\<close> in the default
  registry, \<open>ResolveType a\<close> and \<open>ResolveType t\<close> both succeed and agree on \<open>LMSType\<close> and
  \<open>LMSSubtype\<close>; they are the same record for every alias other than \<open>essay\<close>. The key
  \<open>essay\<close> is also a canonical key, and since the canonical table is consulted first,
  \<open>ResolveType essay\<close> is the canonical \<open>essay\<close> record, which differs from the
  \<open>writing-long\<close> record in portable type and description, as the evaluation after
  the theorem shows.
\<close>

theorem alias_resolves_like_target:
  assumes "go_strings L" and "aliases NewAssignmentTypeManager a = Some t"
  shows "\<exists>m m'. ResolveType L NewAssignmentTypeManager a = Inr m
           \<and> ResolveType L NewAssignmentTypeManager t = Inr m'
           \<and> LMSType m = LMSType m' \<and> LMSSubtype m = LMSSubtype m'
           \<and> (a \<noteq> ''essay'' \<longrightarrow> m = m')"
proof -
  from alias_target_in_dom[OF assms(2)]
  obtain m' where m': "mappings NewAssignmentTypeManager t = Some m'" by blast
  have rt: "ResolveType L NewAssignmentTypeManager t = Inr m'"
    by (rule resolve_canonical[OF assms(1) m'])
  show ?thesis
  proof (cases "a = ''essay''")
    case True
    with assms(2) alias_essay have t: "t = ''writing-long''" by simp
    with m' lookup_writing_long
    have "m' = TM ''writing-long'' ''writing-long'' [] ''Extended writing assignments'' False"
      by simp
    with rt True resolve_canonical[OF assms(1) lookup_essay] show ?thesis
      by (simp add: TM_def)
  next
    case False
    with alias_key_collision[OF assms(2)]
    have none: "mappings NewAssignmentTypeManager a = None" by blast
    from alias_entry[OF assms(2)] alias_entries_plain have "list_all plain_char a"
      by (auto simp: list_all_iff)
    from resolve_plain[OF assms(1) this, of NewAssignmentTypeManager] none assms(2) m'
    have "ResolveType L NewAssignmentTypeManager a = Inr m'" by simp
    with rt show ?thesis by simp
  qed
qed

theorem alias_resolves_like_target_witness:
  "go_strings ascii_strings
   \<and> aliases NewAssignmentTypeManager ''dnd'' = Some ''drag-drop-ordering''
   \<and> ''dnd'' \<noteq> ''essay''
   \<and> ResolveType ascii_strings NewAssignmentTypeManager ''dnd''
       = ResolveType ascii_strings NewAssignmentTypeManager ''drag-drop-ordering''"
  using alias_resolves_like_target[OF go_strings_ascii alias_dnd] go_strings_ascii alias_dnd
  by auto

theorem alias_resolution_counterexample:
  "aliases NewAssignmentTypeManager ''essay'' = Some ''writing-long''
   \<and> ResolveType ascii_strings NewAssignmentTypeManager ''essay''
       = Inr (TM ''essay'' ''writing-long'' [] ''Essay assignment (mapped to writing-long)''
               False)
   \<and> ResolveType ascii_strings NewAssignmentTypeManager ''writing-long''
       = Inr (TM ''writing-long'' ''writing-long'' [] ''Extended writing assignments'' False)
   \<and> ResolveType ascii_strings NewAssignmentTypeManager ''essay''
       \<noteq> ResolveType ascii_strings NewAssignmentTypeManager ''writing-long''"
  using alias_essay resolve_canonical[OF go_strings_ascii lookup_essay]
    resolve_canonical[OF go_strings_ascii lookup_writing_long]
  by (simp add: TM_def)

text \<open>
  \<^bold>\<open>Claim C2\<close>, as amended. In the registry built by \<open>NewAssignmentTypeManager\<close> every
  alias target is a key of the canonical table. The second half of the claim, that no
  alias key is a canonical key, fails for \<open>essay\<close>, which both tables hold; \<open>essay\<close> is
  the only key the two tables share.
\<close>

theorem alias_table_invariant:
  "(\<forall>a t. aliases NewAssignmentTypeManager a = Some t
       \<longrightarrow> t \<in> dom (mappings NewAssignmentTypeManager))
   \<and> dom (aliases NewAssignmentTypeManager) \<inter> dom (mappings NewAssignmentTypeManager)
       = {''essay''}"
proof -
  have "dom (aliases NewAssignmentTypeManager) \<inter> dom (mappings NewAssignmentTypeManager)
          \<subseteq> {''essay''}"
    using alias_key_collision by blast
  moreover have "''essay'' \<in> dom (aliases NewAssignmentTypeManager)"
    using alias_essay by blast
  moreover have "''essay'' \<in> dom (mappings NewAssignmentTypeManager)"
    using lookup_essay by blast
  ultimately show ?thesis using alias_target_in_dom by blast
qed

theorem alias_table_invariant_witness:
  "aliases NewAssignmentTypeManager ''dnd'' = Some ''drag-drop-ordering''
   \<and> ''drag-drop-ordering'' \<in> dom (mappings NewAssignmentTypeManager)"
  using alias_table_invariant alias_dnd by blast

theorem alias_key_collides_counterexample:
  "aliases NewAssignmentTypeManager ''essay'' = Some ''writing-long''
   \<and> mappings NewAssignmentTypeManager ''essay''
       = Some (TM ''essay'' ''writing-long'' [] ''Essay assignment (mapped to writing-long)''
                False)"
  using alias_essay lookup_essay by simp

text \<open>
  \<^bold>\<open>Claim C9\<close>. For every canonical portable type \<open>t\<close> of the default table,
  \<open>ResolveType t\<close> succeeds with the table's entry for \<open>t\<close>, and \<open>ConvertToLMSFormat t\<close>
  returns that entry's LMS type and subtype without error, the LMS type being non-empty.
\<close>

theorem canonical_types_convert:
  assumes "go_strings L" and "t \<in> dom (mappings NewAssignmentTypeManager)"
  shows "\<exists>mapping. mappings NewAssignmentTypeManager t = Some mapping
           \<and> ResolveType L NewAssignmentTypeManager t = Inr mapping
           \<and> ConvertToLMSFormat L NewAssignmentTypeManager t
                 = Inr (LMSType mapping, LMSSubtype mapping)
           \<and> LMSType mapping \<noteq> []"
proof -
  from assms(2) obtain mapping where m: "mappings NewAssignmentTypeManager t = Some mapping"
    by blast
  have r: "ResolveType L NewAssignmentTypeManager t = Inr mapping"
    by (rule resolve_canonical[OF assms(1) m])
  from mappings_Some[OF m] directMappings_LMSType have "LMSType mapping \<noteq> []"
    by (simp add: list_all_iff)
  with m r show ?thesis by (simp add: ConvertToLMSFormat_def)
qed

theorem canonical_types_convert_witness:
  "go_strings ascii_strings
   \<and> ''drag-drop-labeling'' \<in> dom (mappings NewAssignmentTypeManager)
   \<and> ConvertToLMSFormat ascii_strings NewAssignmentTypeManager ''drag-drop-labeling''
        = Inr (''drag-and-drop'', ''labeling'')"
proof -
  have d: "''drag-drop-labeling'' \<in> dom (mappings NewAssignmentTypeManager)"
    using lookup_labeling by blast
  from canonical_types_convert[OF go_strings_ascii d] lookup_labeling go_strings_ascii d
  show ?thesis by (auto simp: TM_def)
qed


section \<open>Properties of the package validator\<close>

lemma blocking_simps:
  "Score (blocking c msg n v) = Score v - (if c then n else 0)"
  "Errors (blocking c msg n v) = Errors v @ (if c then [msg] else [])"
  "IsValid (blocking c msg n v) = (IsValid v \<and> \<not> c)"
  by (simp_all add: blocking_def)

lemma warning_simps:
  "Score (warning c msg n v) = Score v - (if c then n else 0)"
  "Errors (warning c msg n v) = Errors v"
  "IsValid (warning c msg n v) = IsValid v"
  by (simp_all add: warning_def)

lemma validate_steps:
  "validateAssignmentPackage now pkg =
     warning (Points (Assignment pkg) \<le> 0) ''Assignment should have positive points'' 10
       (warning (Assignment.Description (Assignment pkg) = [])
          ''Assignment description is recommended'' 5
          (blocking (questions_missing pkg)
             (if Assignment.Type (Assignment pkg) = ''multiple-choice''
              then ''Multiple choice questions are required''
              else ''Matching items are required'') 30
             (blocking (type_missing pkg) ''Assignment type is required'' 20
                (blocking (title_missing pkg) ''Assignment title is required'' 20
                   \<lparr>IsValid = True, ValidatedAt = now, ValidatorVersion = ''1.0.0'',
                    Errors = [], Warnings = [], Score = 100\<rparr>))))"
proof -
  have q: "(if Assignment.Type (Assignment pkg) = ''multiple-choice''
            then (if Questions (Assignment pkg) = None
                  then v\<lparr>Errors := Errors v @ [''Multiple choice questions are required''],
                                   IsValid := False, Score := Score v - 30\<rparr>
                  else v)
            else if Assignment.Type (Assignment pkg) = ''matching''
            then (if Questions (Assignment pkg) = None
                  then v\<lparr>Errors := Errors v @ [''Matching items are required''],
                                   IsValid := False, Score := Score v - 30\<rparr>
                  else v)
            else v) = blocking (questions_missing pkg)
             (if Assignment.Type (Assignment pkg) = ''multiple-choice''
              then ''Multiple choice questions are required''
              else ''Matching items are required'') 30 v" for v
    by (simp add: blocking_def questions_missing_def)
  show ?thesis
    unfolding validateAssignmentPackage_def Let_def q
    unfolding blocking_def[symmetric] warning_def[symmetric] title_missing_def[symmetric] type_missing_def[symmetric]
    by (rule refl)
qed

lemma validate_Score:
  "Score (validateAssignmentPackage now pkg) =
     100 - (if title_missing pkg then 20 else 0) - (if type_missing pkg then 20 else 0)
         - (if questions_missing pkg then 30 else 0)
         - (if Assignment.Description (Assignment pkg) = [] then 5 else 0)
         - (if Points (Assignment pkg) \<le> 0 then 10 else 0)"
  by (simp only: validate_steps blocking_simps warning_simps ValidationInfo.simps)

lemma validate_IsValid:
  "IsValid (validateAssignmentPackage now pkg) =
     (\<not> title_missing pkg \<and> \<not> type_missing pkg \<and> \<not> questions_missing pkg)"
  by (simp only: validate_steps blocking_simps warning_simps ValidationInfo.simps simp_thms conj_assoc)

lemma validate_Errors:
  "Errors (validateAssignmentPackage now pkg) =
     (if title_missing pkg then [''Assignment title is required''] else [])
     @ (if type_missing pkg then [''Assignment type is required''] else [])
     @ (if questions_missing pkg
        then [if Assignment.Type (Assignment pkg) = ''multiple-choice''
              then ''Multiple choice questions are required''
              else ''Matching items are required'']
        else [])"
  by (simp only: validate_steps blocking_simps warning_simps ValidationInfo.simps append_Nil append_assoc)

lemma type_missing_no_questions_check: "type_missing pkg \<Longrightarrow> \<not> questions_missing pkg"
  by (auto simp: type_missing_def questions_missing_def)

text \<open>
  \<^bold>\<open>Claim C3\<close>. For a package whose assignment has an empty title and an empty type,
  the validator returns \<open>IsValid = false\<close>, a score of at most 60, and exactly two
  errors (the missing title and the missing type). For every package, \<open>IsValid\<close> is
  false exactly when the error list is not empty.
\<close>

theorem validate_empty_title_and_type:
  "(Assignment.Title (Assignment pkg) = [] \<and> Assignment.Type (Assignment pkg) = []
      \<longrightarrow> \<not> IsValid (validateAssignmentPackage now pkg)
          \<and> Score (validateAssignmentPackage now pkg) \<le> 60
          \<and> Errors (validateAssignmentPackage now pkg)
               = [''Assignment title is required'', ''Assignment type is required'']
          \<and> length (Errors (validateAssignmentPackage now pkg)) = 2)
   \<and> (\<not> IsValid (validateAssignmentPackage now pkg)
        \<longleftrightarrow> Errors (validateAssignmentPackage now pkg) \<noteq> [])"
proof -
  have general: "\<not> IsValid (validateAssignmentPackage now pkg)
        \<longleftrightarrow> Errors (validateAssignmentPackage now pkg) \<noteq> []"
    by (simp add: validate_IsValid validate_Errors)
  have special: "\<not> IsValid (validateAssignmentPackage now pkg)
          \<and> Score (validateAssignmentPackage now pkg) \<le> 60
          \<and> Errors (validateAssignmentPackage now pkg)
               = [''Assignment title is required'', ''Assignment type is required'']"
    if "title_missing pkg" and "type_missing pkg"
    using that type_missing_no_questions_check[OF that(2)]
    by (simp add: validate_IsValid validate_Score validate_Errors)
  from general special show ?thesis
    by (simp add: title_missing_def type_missing_def)
qed

theorem validate_empty_title_and_type_witness:
  "Assignment.Title (Assignment zeroPackage) = []
   \<and> Assignment.Type (Assignment zeroPackage) = []
   \<and> \<not> IsValid (validateAssignmentPackage 0 zeroPackage)
   \<and> Score (validateAssignmentPackage 0 zeroPackage) = 45
   \<and> length (Errors (validateAssignmentPackage 0 zeroPackage)) = 2"
proof -
  have t: "Assignment.Title (Assignment zeroPackage) = []
      \<and> Assignment.Type (Assignment zeroPackage) = []"
    by (simp add: zeroPackage_def zeroAssignment_def)
  have s: "Score (validateAssignmentPackage 0 zeroPackage) = 45"
    by (simp add: validateAssignmentPackage_def Let_def zeroPackage_def zeroAssignment_def)
  from validate_empty_title_and_type[of zeroPackage 0] t s show ?thesis by simp
qed

text \<open>
  \<^bold>\<open>Claim C4\<close>, as amended. The claim says that some package gets a negative score.
  The deductions are 20, 20, 30, 5 and 10, but the deduction for a missing type and the
  deduction for missing questions exclude each other (the second needs the type to be
  \<open>multiple-choice\<close> or \<open>matching\<close>), so at most 65 is deducted: every score lies between
  35 and 100, and no package gets a negative one. The value 35 is reached.
\<close>

theorem validate_score_bounds:
  "35 \<le> Score (validateAssignmentPackage now pkg)
   \<and> Score (validateAssignmentPackage now pkg) \<le> 100"
proof (cases "type_missing pkg")
  case True
  from type_missing_no_questions_check[OF True] show ?thesis
    by (simp add: validate_Score)
next
  case False
  then show ?thesis by (simp add: validate_Score)
qed

theorem validate_score_bounds_witness:
  "Score (validateAssignmentPackage 0 worstPackage) = 35"
proof -
  have "Score (validateAssignmentPackage 0 worstPackage) \<le> 35"
    by (simp add: validateAssignmentPackage_def Let_def worstPackage_def zeroPackage_def
        zeroAssignment_def)
  with validate_score_bounds[of 0 worstPackage] show ?thesis by simp
qed

theorem validate_score_negative_counterexample:
  "\<not> (\<exists>now pkg. Score (validateAssignmentPackage now pkg) < 0)"
proof
  assume "\<exists>now pkg. Score (validateAssignmentPackage now pkg) < 0"
  then obtain now pkg where neg: "Score (validateAssignmentPackage now pkg) < 0" by blast
  show False
  proof (cases "type_missing pkg")
    case True
    from type_missing_no_questions_check[OF True] neg show False
      by (simp add: validate_Score split: if_splits)
  next
    case False
    with neg show False by (simp add: validate_Score split: if_splits)
  qed
qed


section \<open>Properties of the format converter\<close>

lemma optional_keeps:
  "k \<noteq> k' \<Longrightarrow> (case x of Some d \<Rightarrow> m(k' \<mapsto> f d) | None \<Rightarrow> m) k = m k"
  by (cases x) simp_all

lemma convert_type:
  "convertToLMSFormat L rfc3339 now pkg ''type''
     = Some (WString (fst (wire_type_pair L (Assignment pkg))))"
  unfolding convertToLMSFormat_def Let_def wire_type_pair_def
  by (simp add: optional_keeps split: prod.splits)

lemma convert_subtype:
  "convertToLMSFormat L rfc3339 now pkg ''subtype''
     = Some (WString (snd (wire_type_pair L (Assignment pkg))))"
  unfolding convertToLMSFormat_def Let_def wire_type_pair_def
  by (simp add: optional_keeps split: prod.splits)

lemma wire_type_pair_unresolved:
  "ResolveType L GetTypeManager (Assignment.Type a) = Inl err
   \<Longrightarrow> wire_type_pair L a = (Assignment.Type a, Subtype a)"
  by (simp add: wire_type_pair_def ConvertToLMSFormat_def)

lemma wire_type_pair_resolved:
  "ResolveType L GetTypeManager (Assignment.Type a) = Inr mapping
   \<Longrightarrow> wire_type_pair L a = (LMSType mapping, LMSSubtype mapping)"
  by (simp add: wire_type_pair_def ConvertToLMSFormat_def)

lemma resolve_Hologram:
  "ResolveType ascii_strings GetTypeManager ''Hologram''
     = Inl (UnknownAssignmentType ''Hologram'')"
proof -
  have n: "ToLower ascii_strings (TrimSpace ascii_strings ''Hologram'') = ''hologram''"
    by (simp add: ascii_strings_def ascii_TrimSpace_def ascii_space_def ascii_ToLower_def) code_simp
  have "''hologram'' \<notin> set canonicalKeys" by (simp add: canonicalKeys_eval)
  then have m: "mappings NewAssignmentTypeManager ''hologram'' = None"
    using mappings_dom by blast
  have a: "aliases NewAssignmentTypeManager ''hologram'' = None"
    by (simp add: aliases_New defaultAliases_def)
  show ?thesis by (simp add: ResolveType_def n m a GetTypeManager_def)
qed

text \<open>
  \<^bold>\<open>Claim C5\<close>. \<open>convertToLMSFormat\<close> has no error result: it returns a wire record
  for every package. When the resolution of the assignment's type fails, the record's
  \<open>type\<close> entry is the package's original type string and its \<open>subtype\<close> entry is the
  package's original subtype.
\<close>

theorem convert_unresolved_type:
  assumes "ResolveType L GetTypeManager (Assignment.Type (Assignment pkg)) = Inl err"
  shows "convertToLMSFormat L rfc3339 now pkg ''type''
           = Some (WString (Assignment.Type (Assignment pkg)))
       \<and> convertToLMSFormat L rfc3339 now pkg ''subtype''
           = Some (WString (Subtype (Assignment pkg)))"
  using wire_type_pair_unresolved[OF assms] by (simp add: convert_type convert_subtype)

theorem convert_unresolved_type_witness:
  "ResolveType ascii_strings GetTypeManager (Assignment.Type (Assignment unknownTypePackage))
     = Inl (UnknownAssignmentType ''Hologram'')
   \<and> convertToLMSFormat ascii_strings (\<lambda>t. []) 0 unknownTypePackage ''type''
       = Some (WString ''Hologram'')
   \<and> convertToLMSFormat ascii_strings (\<lambda>t. []) 0 unknownTypePackage ''subtype''
       = Some (WString ''3d'')"
proof -
  have f: "Assignment.Type (Assignment unknownTypePackage) = ''Hologram''"
    "Subtype (Assignment unknownTypePackage) = ''3d''"
    by (simp_all add: unknownTypePackage_def zeroPackage_def zeroAssignment_def)
  have r: "ResolveType ascii_strings GetTypeManager
             (Assignment.Type (Assignment unknownTypePackage))
           = Inl (UnknownAssignmentType ''Hologram'')"
    by (simp only: f resolve_Hologram)
  from convert_unresolved_type[OF r, of "\<lambda>t. []" 0] r f show ?thesis by simp
qed

text \<open>
  \<^bold>\<open>Claim C10\<close>. When the assignment's type resolves, the \<open>subtype\<close> entry of the
  wire record is the resolved mapping's \<open>LMSSubtype\<close>, whatever the package's own
  \<open>Subtype\<close> field holds: an essay package that declares the subtype \<open>argumentative\<close>
  is sent with an empty subtype.
\<close>

theorem convert_resolved_subtype:
  assumes "ResolveType L GetTypeManager (Assignment.Type (Assignment pkg)) = Inr mapping"
  shows "convertToLMSFormat L rfc3339 now pkg ''subtype'' = Some (WString (LMSSubtype mapping))
       \<and> (\<forall>s. convertToLMSFormat L rfc3339 now
                 (pkg\<lparr>Assignment := (Assignment pkg)\<lparr>Subtype := s\<rparr>\<rparr>) ''subtype''
               = Some (WString (LMSSubtype mapping)))"
proof -
  have "wire_type_pair L ((Assignment pkg)\<lparr>Subtype := s\<rparr>) = (LMSType mapping, LMSSubtype mapping)"
    for s
    using assms by (intro wire_type_pair_resolved) simp
  with wire_type_pair_resolved[OF assms] show ?thesis
    by (simp add: convert_subtype)
qed

theorem convert_resolved_subtype_witness:
  "ResolveType ascii_strings GetTypeManager (Assignment.Type (Assignment essayPackage))
     = Inr (TM ''essay'' ''writing-long'' [] ''Essay assignment (mapped to writing-long)'' False)
   \<and> Subtype (Assignment essayPackage) = ''argumentative''
   \<and> convertToLMSFormat ascii_strings (\<lambda>t. []) 0 essayPackage ''subtype'' = Some (WString [])"
proof -
  have f: "Assignment.Type (Assignment essayPackage) = ''essay''"
    "Subtype (Assignment essayPackage) = ''argumentative''"
    by (simp_all add: essayPackage_def zeroPackage_def zeroAssignment_def)
  have r: "ResolveType ascii_strings GetTypeManager (Assignment.Type (Assignment essayPackage))
     = Inr (TM ''essay'' ''writing-long'' [] ''Essay assignment (mapped to writing-long)'' False)"
    using resolve_canonical[OF go_strings_ascii lookup_essay]
    by (simp add: f GetTypeManager_def)
  from convert_resolved_subtype[OF r, of "\<lambda>t. []" 0] r f show ?thesis
    by (simp add: TM_def)
qed


section \<open>Properties of the suggestion search\<close>

lemma collect_keys:
  "foldl (\<lambda>suggestions (portableType, mapping).
            if Contains portableType input \<or> Contains input portableType
            then suggestions @ [portableType] else suggestions) acc kvs
   = acc @ map fst (filter (\<lambda>(k, v). matches input k) kvs)"
proof (induction kvs arbitrary: acc)
  case Nil
  show ?case by simp
next
  case (Cons kv kvs)
  obtain k v where kv: "kv = (k, v)" by (cases kv)
  show ?case
    by (cases "matches input k") (simp_all add: kv Cons.IH, simp_all add: matches_def)
qed

lemma collect_targets:
  "foldl (\<lambda>suggestions (alias, target).
            if Contains alias input \<or> Contains input alias
            then suggestions @ [target] else suggestions) acc kvs
   = acc @ map snd (filter (\<lambda>(k, v). matches input k) kvs)"
proof (induction kvs arbitrary: acc)
  case Nil
  show ?case by simp
next
  case (Cons kv kvs)
  obtain k v where kv: "kv = (k, v)" by (cases kv)
  show ?case
    by (cases "matches input k") (simp_all add: kv Cons.IH, simp_all add: matches_def)
qed

lemma dedup_step_seen: "seen x \<Longrightarrow> dedup_step (seen, unique) x = (seen, unique)"
  by (simp add: dedup_step_def)

lemma dedup_step_new:
  "\<not> seen x \<Longrightarrow> dedup_step (seen, unique) x = (seen(x := True), unique @ [x])"
  by (simp add: dedup_step_def)

lemma dedup_loop:
  assumes "\<forall>s. seen s \<longleftrightarrow> s \<in> set unique" and "distinct unique"
  shows "distinct (snd (foldl dedup_step (seen, unique) xs))
       \<and> set (snd (foldl dedup_step (seen, unique) xs)) = set unique \<union> set xs"
  using assms
proof (induction xs arbitrary: seen unique)
  case Nil
  then show ?case by simp
next
  case (Cons x xs)
  show ?case
  proof (cases "seen x")
    case True
    with Cons.prems have x: "x \<in> set unique" by simp
    have step: "foldl dedup_step (seen, unique) (x # xs) = foldl dedup_step (seen, unique) xs"
      using True by (simp add: dedup_step_seen[of seen x unique])
    have sets: "set unique \<union> set (x # xs) = set unique \<union> set xs"
      using x by auto
    from Cons.IH[OF Cons.prems] show ?thesis
      unfolding step sets .
  next
    case False
    with Cons.prems have nx: "x \<notin> set unique" by simp
    have inv: "\<forall>s. (seen(x := True)) s \<longleftrightarrow> s \<in> set (unique @ [x])"
      using Cons.prems(1) by simp
    have d: "distinct (unique @ [x])" using Cons.prems(2) nx by simp
    have step: "foldl dedup_step (seen, unique) (x # xs)
            = foldl dedup_step (seen(x := True), unique @ [x]) xs"
      using False by (simp add: dedup_step_new[of seen x unique] del: fun_upd_apply)
    have sets: "set unique \<union> set (x # xs) = set (unique @ [x]) \<union> set xs"
      by auto
    from Cons.IH[OF inv d] show ?thesis
      unfolding step sets .
  qed
qed

lemma suggestions_unfold:
  "GetSuggestedTypes L atm mo ao input
   = snd (foldl dedup_step (\<lambda>_. False, [])
       (map fst (filter (\<lambda>(k, v). matches (ToLower L input) k) mo)
        @ map snd (filter (\<lambda>(k, v). matches (ToLower L input) k) ao)))"
  unfolding GetSuggestedTypes_def Let_def collect_keys collect_targets dedup_step_def[symmetric]
  by (simp add: case_prod_unfold)

lemma suggestions_set:
  "distinct (GetSuggestedTypes L atm mo ao input)
   \<and> set (GetSuggestedTypes L atm mo ao input)
       = fst ` {kv \<in> set mo. matches (ToLower L input) (fst kv)}
         \<union> snd ` {kv \<in> set ao. matches (ToLower L input) (fst kv)}"
proof -
  have "\<forall>s. (\<lambda>_. False) s \<longleftrightarrow> s \<in> set ([] :: string list)" by simp
  from dedup_loop[OF this, of "map fst (filter (\<lambda>(k, v). matches (ToLower L input) k) mo)
          @ map snd (filter (\<lambda>(k, v). matches (ToLower L input) k) ao)"]
  show ?thesis
    unfolding suggestions_unfold
    by (simp add: case_prod_unfold image_Collect)
qed


lemma foldl_upd_map_of:
  "foldl (\<lambda>m x. m(f x \<mapsto> x)) m0 xs = m0 ++ map_of (rev (map (\<lambda>x. (f x, x)) xs))"
proof (induction xs arbitrary: m0)
  case Nil
  show ?case by simp
next
  case (Cons a xs)
  have "foldl (\<lambda>m x. m(f x \<mapsto> x)) m0 (a # xs) = foldl (\<lambda>m x. m(f x \<mapsto> x)) (m0(f a \<mapsto> a)) xs"
    by (simp only: foldl_Cons)
  also have "\<dots> = m0(f a \<mapsto> a) ++ map_of (rev (map (\<lambda>x. (f x, x)) xs))"
    by (rule Cons.IH)
  also have "\<dots> = m0 ++ map_of (rev (map (\<lambda>x. (f x, x)) (a # xs)))"
    by (simp del: fun_upd_apply)
  finally show ?case .
qed

lemma fst_tableOrder: "map fst tableOrder = canonicalKeys"
  by (simp add: tableOrder_def canonicalKeys_def comp_def)

lemma canonicalKeys_distinct: "distinct canonicalKeys"
  by (simp add: canonicalKeys_eval)

lemma mappings_graph: "Map.graph (mappings NewAssignmentTypeManager) = set tableOrder"
proof -
  have "mappings NewAssignmentTypeManager = map_of (rev tableOrder)"
    by (simp add: NewAssignmentTypeManager_def initializeDefaultMappings_def foldl_upd_map_of
        tableOrder_def)
  moreover have "distinct (map fst (rev tableOrder))"
    using canonicalKeys_distinct by (simp add: rev_map[symmetric] fst_tableOrder)
  ultimately show ?thesis by (simp add: graph_map_of_if_distinct_dom)
qed

lemma aliases_distinct: "distinct (map fst defaultAliases)"
  by (simp add: defaultAliases_def)

lemma aliases_graph: "Map.graph (aliases NewAssignmentTypeManager) = set defaultAliases"
  by (simp add: aliases_New graph_map_of_if_distinct_dom[OF aliases_distinct])

lemma map_range_tableOrder: "map_range (mappings NewAssignmentTypeManager) tableOrder"
  by (simp add: map_range_def mappings_graph fst_tableOrder canonicalKeys_distinct)

lemma map_range_reverseOrder: "map_range (mappings NewAssignmentTypeManager) reverseOrder"
  using canonicalKeys_distinct
  by (simp add: map_range_def mappings_graph reverseOrder_def rev_map[symmetric] fst_tableOrder)

lemma map_range_defaultAliases: "map_range (aliases NewAssignmentTypeManager) defaultAliases"
  by (simp add: map_range_def aliases_graph aliases_distinct)

lemma matches_drag_keys:
  "filter (matches ''drag'') canonicalKeys = dragDropTypes"
  by (simp add: canonicalKeys_eval matches_def dragDropTypes_def)

lemma matches_drag_aliases:
  "filter (\<lambda>kv. matches ''drag'' (fst kv)) defaultAliases
     = [(''drag-drop'', ''drag-drop-ordering'')]"
  by (simp add: defaultAliases_def matches_def)

lemma ToLower_drag: "go_strings L \<Longrightarrow> ToLower L ''drag'' = ''drag''"
  by (simp add: go_strings_def is_ascii_def ascii_ToLower_def ascii_lower_def)

lemma suggestions_default:
  assumes "map_range (mappings NewAssignmentTypeManager) mo"
    and "map_range (aliases NewAssignmentTypeManager) ao"
  shows "set (GetSuggestedTypes L NewAssignmentTypeManager mo ao input)
       = set (filter (matches (ToLower L input)) canonicalKeys)
         \<union> snd ` set (filter (\<lambda>kv. matches (ToLower L input) (fst kv)) defaultAliases)"
proof -
  from assms(1) have mo: "set mo = set tableOrder"
    by (simp add: map_range_def mappings_graph)
  from assms(2) have ao: "set ao = set defaultAliases"
    by (simp add: map_range_def aliases_graph)
  have "fst ` {kv \<in> set tableOrder. matches (ToLower L input) (fst kv)}
          = {k \<in> fst ` set tableOrder. matches (ToLower L input) k}"
    by force
  also have "\<dots> = set (filter (matches (ToLower L input)) canonicalKeys)"
    using fst_tableOrder by (metis set_filter set_map)
  finally show ?thesis
    using suggestions_set[of L NewAssignmentTypeManager mo ao input]
    by (simp add: mo ao)
qed


text \<open>
  \<^bold>\<open>Claim C7\<close>, as amended. \<open>GetSuggestedTypes\<close> has no error result. Whatever the
  order in which the two map loops visit their tables, the result for \<open>drag\<close> has no
  duplicates and consists of exactly the five \<open>drag-drop-*\<close> portable types, and the
  result for any input is empty when no canonical key and no alias key contains the
  lower-cased input or is contained in it. The order of the result is the order of
  discovery, which follows the map iteration order: it is not the same for every order
  of visit (the table's order and its reverse give opposite results), so it is not
  stable across calls.
\<close>

theorem suggestions_for_drag:
  assumes "go_strings L"
    and "map_range (mappings NewAssignmentTypeManager) mo"
    and "map_range (aliases NewAssignmentTypeManager) ao"
  shows "distinct (GetSuggestedTypes L NewAssignmentTypeManager mo ao ''drag'')
       \<and> set (GetSuggestedTypes L NewAssignmentTypeManager mo ao ''drag'')
           = {''drag-drop-ordering'', ''drag-drop-categorization'', ''drag-drop-fill-blank'',
              ''drag-drop-labeling'', ''drag-drop-image-caption''}
       \<and> length (GetSuggestedTypes L NewAssignmentTypeManager mo ao ''drag'') = 5
       \<and> (\<forall>input.
             (\<forall>k \<in> dom (mappings NewAssignmentTypeManager).
                 \<not> Contains k (ToLower L input) \<and> \<not> Contains (ToLower L input) k)
             \<and> (\<forall>a \<in> dom (aliases NewAssignmentTypeManager).
                 \<not> Contains a (ToLower L input) \<and> \<not> Contains (ToLower L input) a)
             \<longrightarrow> GetSuggestedTypes L NewAssignmentTypeManager mo ao input = [])"
proof -
  let ?r = "GetSuggestedTypes L NewAssignmentTypeManager mo ao ''drag''"
  have d: "distinct ?r"
    using suggestions_set[of L NewAssignmentTypeManager mo ao "''drag''"] by blast
  have s: "set ?r = set dragDropTypes"
    using suggestions_default[OF assms(2,3), of L "''drag''"]
    by (simp add: ToLower_drag[OF assms(1)] matches_drag_keys matches_drag_aliases
        dragDropTypes_def)
  have "card (set ?r) = 5" unfolding s by (simp add: dragDropTypes_def)
  with d have l: "length ?r = 5" by (simp add: distinct_card)
  have e: "GetSuggestedTypes L NewAssignmentTypeManager mo ao input = []"
    if k: "\<forall>k \<in> dom (mappings NewAssignmentTypeManager).
                 \<not> Contains k (ToLower L input) \<and> \<not> Contains (ToLower L input) k"
      and a: "\<forall>a \<in> dom (aliases NewAssignmentTypeManager).
                 \<not> Contains a (ToLower L input) \<and> \<not> Contains (ToLower L input) a"
    for input
  proof -
    from k have "filter (matches (ToLower L input)) canonicalKeys = []"
      by (simp add: mappings_dom matches_def filter_empty_conv)
    moreover from a have "filter (\<lambda>kv. matches (ToLower L input) (fst kv)) defaultAliases = []"
      by (auto simp: aliases_New dom_map_of_conv_image_fst matches_def filter_empty_conv)
    ultimately have "set (GetSuggestedTypes L NewAssignmentTypeManager mo ao input) = {}"
      using suggestions_default[OF assms(2,3), of L input] by simp
    then show ?thesis by simp
  qed
  from d s l e show ?thesis by (simp add: dragDropTypes_def)
qed

lemma no_match_qzx:
  "(\<forall>k \<in> dom (mappings NewAssignmentTypeManager).
       \<not> Contains k ''qzx'' \<and> \<not> Contains ''qzx'' k)
   \<and> (\<forall>a \<in> dom (aliases NewAssignmentTypeManager).
       \<not> Contains a ''qzx'' \<and> \<not> Contains ''qzx'' a)"
  by (simp add: mappings_dom canonicalKeys_eval aliases_New dom_map_of_conv_image_fst
      defaultAliases_def)

lemma ToLower_QZX: "ToLower ascii_strings ''QZX'' = ''qzx''"
  by (simp add: ascii_strings_def ascii_ToLower_def) code_simp

theorem suggestions_for_drag_witness:
  "go_strings ascii_strings
   \<and> map_range (mappings NewAssignmentTypeManager) tableOrder
   \<and> map_range (aliases NewAssignmentTypeManager) defaultAliases
   \<and> length (GetSuggestedTypes ascii_strings NewAssignmentTypeManager tableOrder
               defaultAliases ''drag'') = 5
   \<and> filter (matches (ToLower ascii_strings ''QZX'')) canonicalKeys = []
   \<and> filter (matches (ToLower ascii_strings ''QZX'')) (map fst defaultAliases) = []
   \<and> GetSuggestedTypes ascii_strings NewAssignmentTypeManager tableOrder defaultAliases
        ''QZX'' = []"
proof -
  have k: "filter (matches (ToLower ascii_strings ''QZX'')) canonicalKeys = []"
    using no_match_qzx
    by (simp add: ToLower_QZX mappings_dom matches_def filter_empty_conv)
  have a: "filter (matches (ToLower ascii_strings ''QZX'')) (map fst defaultAliases) = []"
    using no_match_qzx
    by (simp add: ToLower_QZX aliases_New dom_map_of_conv_image_fst matches_def
        filter_empty_conv)
  from suggestions_for_drag[OF go_strings_ascii map_range_tableOrder map_range_defaultAliases]
    go_strings_ascii map_range_tableOrder map_range_defaultAliases no_match_qzx k a
  show ?thesis by (simp add: ToLower_QZX)
qed

lemma filter_rev_keys:
  "filter (\<lambda>(k, v). matches ''drag'' k) reverseOrder
     = rev (filter (\<lambda>(k, v). matches ''drag'' k) tableOrder)"
  by (simp add: reverseOrder_def rev_filter)

lemma drag_tableOrder:
  "map fst (filter (\<lambda>(k, v). matches ''drag'' k) tableOrder) = dragDropTypes"
proof -
  have "map fst (filter (\<lambda>(k, v). matches ''drag'' k) tableOrder)
          = filter (matches ''drag'') (map fst tableOrder)"
    by (simp add: filter_map comp_def case_prod_unfold)
  then show ?thesis by (simp add: fst_tableOrder matches_drag_keys)
qed

theorem suggestion_order_counterexample:
  "map_range (mappings NewAssignmentTypeManager) tableOrder
   \<and> map_range (mappings NewAssignmentTypeManager) reverseOrder
   \<and> map_range (aliases NewAssignmentTypeManager) defaultAliases
   \<and> GetSuggestedTypes ascii_strings NewAssignmentTypeManager tableOrder defaultAliases ''drag''
       = [''drag-drop-ordering'', ''drag-drop-categorization'', ''drag-drop-fill-blank'',
          ''drag-drop-labeling'', ''drag-drop-image-caption'']
   \<and> GetSuggestedTypes ascii_strings NewAssignmentTypeManager reverseOrder defaultAliases ''drag''
       = [''drag-drop-image-caption'', ''drag-drop-labeling'', ''drag-drop-fill-blank'',
          ''drag-drop-categorization'', ''drag-drop-ordering'']"
proof -
  have a: "map snd (filter (\<lambda>(k, v). matches ''drag'' k) defaultAliases)
             = [''drag-drop-ordering'']"
    using matches_drag_aliases by (simp add: case_prod_unfold)
  have r1: "GetSuggestedTypes ascii_strings NewAssignmentTypeManager tableOrder defaultAliases
              ''drag'' = dragDropTypes"
    unfolding suggestions_unfold ToLower_drag[OF go_strings_ascii] drag_tableOrder a
    by (simp add: dragDropTypes_def dedup_step_def)
  have r2: "GetSuggestedTypes ascii_strings NewAssignmentTypeManager reverseOrder defaultAliases
              ''drag'' = rev dragDropTypes"
    unfolding suggestions_unfold ToLower_drag[OF go_strings_ascii] filter_rev_keys
      rev_map[symmetric] drag_tableOrder a
    by (simp add: dragDropTypes_def dedup_step_def)
  from r1 r2 map_range_tableOrder map_range_reverseOrder map_range_defaultAliases
  show ?thesis by (simp add: dragDropTypes_def)
qed


section \<open>Properties of the content hash\<close>

lemma calculateHash_eq:
  "calculateHash jm sh pkg = hex_digest (sh (hash_input jm (Assignment pkg)))"
  by (simp add: calculateHash_def hash_input_def)

lemma hex_digest_length: "length (hex_digest h) = 64"
  by (simp add: hex_digest_def)

lemma nibble_less: "nibble h i < 16"
proof -
  have "unat (take_bit 4 (drop_bit (4 * i) h)) < 2 ^ 4"
    using take_bit_nat_less_exp[of 4 "unat (drop_bit (4 * i) h)"]
    by (simp add: unsigned_take_bit_eq)
  then show ?thesis by (simp add: nibble_def)
qed

lemma hex_digits_distinct: "distinct ''0123456789abcdef''"
  by simp

lemma hex_digit_inj: "m < 16 \<Longrightarrow> n < 16 \<Longrightarrow> hex_digit m = hex_digit n \<Longrightarrow> m = n"
  using hex_digits_distinct by (simp add: hex_digit_def nth_eq_iff_index_eq del: distinct.simps)

lemma hex_digit_in: "n < 16 \<Longrightarrow> hex_digit n \<in> set ''0123456789abcdef''"
  unfolding hex_digit_def by (rule nth_mem) simp

lemma hex_digest_chars: "set (hex_digest h) \<subseteq> set ''0123456789abcdef''"
  using hex_digit_in[OF nibble_less] by (auto simp: hex_digest_def simp del: set_simps list.set)

lemma nibble_bit:
  assumes "nibble h i = nibble h' i" and "j < 4"
  shows "bit h (4 * i + j) = bit h' (4 * i + j)"
proof -
  from assms(1) have "take_bit 4 (drop_bit (4 * i) h) = take_bit 4 (drop_bit (4 * i) h')"
    by (simp add: nibble_def word_unat_eq_iff)
  then have "bit (take_bit 4 (drop_bit (4 * i) h)) j = bit (take_bit 4 (drop_bit (4 * i) h')) j"
    by simp
  with assms(2) show ?thesis
    by (simp add: bit_take_bit_iff bit_drop_bit_eq add.commute)
qed

lemma hex_digest_inj:
  assumes "hex_digest h = hex_digest h'"
  shows "h = h'"
proof (rule bit_word_eqI)
  fix n assume "n < LENGTH(256)"
  then have n: "n div 4 < 64" by simp
  from assms have "map (\<lambda>i. hex_digit (nibble h i)) [0..<64]
                    = map (\<lambda>i. hex_digit (nibble h' i)) [0..<64]"
    by (simp add: hex_digest_def rev_map[symmetric] del: upt_rec_numeral)
  then have "hex_digit (nibble h (n div 4)) = hex_digit (nibble h' (n div 4))"
    using n by (simp add: map_eq_conv del: upt_rec_numeral)
  then have "nibble h (n div 4) = nibble h' (n div 4)"
    using hex_digit_inj[OF nibble_less nibble_less] by blast
  from nibble_bit[OF this, of "n mod 4"] show "bit h n = bit h' n"
    by simp
qed


text \<open>
  The digest depends on the assignment body only: packages with equal bodies get the
  same digest, whatever their metadata, resources and dependencies. It is a string of 64
  lower-case hexadecimal digits.
\<close>

lemma hash_metadata_independent:
  "Assignment p = Assignment q \<Longrightarrow> calculateHash jm sh p = calculateHash jm sh q"
  by (simp add: calculateHash_eq)

lemma hash_fixed_length:
  "length (calculateHash jm sh p) = 64
   \<and> set (calculateHash jm sh p) \<subseteq> set ''0123456789abcdef''"
  using hex_digest_chars
  by (simp add: calculateHash_eq hex_digest_length del: set_simps list.set)








section \<open>Properties of the batch synchronisation\<close>

lemma sync_outcomes_length: "length (sync_outcomes env c w packages) = length packages"
  by (induction packages arbitrary: w) simp_all

lemma batch_loop_spec:
  "Results (fst (batch_loop env c packages result w))
     = Results result @ map as_result (sync_outcomes env c w packages)
   \<and> SuccessCount (fst (batch_loop env c packages result w))
     = SuccessCount result + int (length (filter (\<lambda>r. \<not> isl r) (sync_outcomes env c w packages)))
   \<and> FailureCount (fst (batch_loop env c packages result w))
     = FailureCount result + int (length (filter isl (sync_outcomes env c w packages)))
   \<and> TotalCount (fst (batch_loop env c packages result w)) = TotalCount result"
proof (induction packages arbitrary: result w)
  case Nil
  show ?case by simp
next
  case (Cons pkg packages)
  obtain r w' where s: "SyncAssignment env c w pkg = (r, w')" by (cases "SyncAssignment env c w pkg")
  show ?case
  proof (cases r)
    case (Inl err)
    with s Cons.IH[of "result\<lparr>FailureCount := FailureCount result + 1,
                    Results := Results result @ [failed_result err]\<rparr>" w']
    show ?thesis by (simp add: failed_result_def)
  next
    case (Inr importResult)
    with s Cons.IH[of "result\<lparr>SuccessCount := SuccessCount result + 1,
                    Results := Results result @ [importResult]\<rparr>" w']
    show ?thesis by simp
  qed
qed

lemma count_split: "length (filter (\<lambda>r. \<not> P r) xs) + length (filter P xs) = length xs"
  by (induction xs) simp_all

lemma BatchSync_result:
  "fst (BatchSyncAssignments env c w packages)
     = (fst (batch_loop env c packages
          \<lparr>BatchID = fst (uuid_New env w), TotalCount = int (length packages), SuccessCount = 0,
            FailureCount = 0, Results = [],
            StartedAt = fst (time_Now env (snd (uuid_New env w))), CompletedAt = 0\<rparr>
          (batch_start env w)))
       \<lparr>CompletedAt := fst (time_Now env (snd (batch_loop env c packages
          \<lparr>BatchID = fst (uuid_New env w), TotalCount = int (length packages), SuccessCount = 0,
            FailureCount = 0, Results = [],
            StartedAt = fst (time_Now env (snd (uuid_New env w))), CompletedAt = 0\<rparr>
          (batch_start env w))))\<rparr>"
  by (simp add: BatchSyncAssignments_def batch_start_def Let_def split: prod.splits)

lemma SyncAssignment_status:
  assumes "fst (SyncAssignment env c w pkg) = Inr r"
  shows "Status r = ''success'' \<or> Status r = ''partial''"
  using assms unfolding SyncAssignment_def Let_def
  by (auto split: prod.splits sum.splits http_outcome.splits if_splits option.splits)

lemma sync_outcomes_status:
  "i < length packages \<Longrightarrow> sync_outcomes env c w packages ! i = Inr r
   \<Longrightarrow> Status r \<noteq> ''failed''"
proof (induction packages arbitrary: w i)
  case Nil
  then show ?case by simp
next
  case (Cons pkg packages)
  show ?case
  proof (cases i)
    case 0
    with Cons.prems(2) have "fst (SyncAssignment env c w pkg) = Inr r" by simp
    from SyncAssignment_status[OF this] show ?thesis by auto
  next
    case (Suc j)
    with Cons.prems Cons.IH[of j "snd (SyncAssignment env c w pkg)"] show ?thesis by simp
  qed
qed

text \<open>
  \<^bold>\<open>Claim C8\<close>. For every list of packages, \<open>BatchSyncAssignments\<close> returns one
  \<open>ImportResult\<close> per package, in input order: the \<open>i\<close>-th result is what
  \<open>SyncAssignment\<close> returned for the \<open>i\<close>-th package, or the \<open>failed\<close> record carrying the
  error message when that call failed, and every package is attempted whatever happened
  to the ones before it. \<open>TotalCount\<close> is the length of the list, \<open>SuccessCount\<close> and
  \<open>FailureCount\<close> add up to it, \<open>FailureCount\<close> counts the failed calls, and a result has
  status \<open>failed\<close> exactly when its call failed. With three packages of which the second
  fails, the counts are 2 and 1.
\<close>

theorem batch_sync_results:
  "length (Results (fst (BatchSyncAssignments env c w packages))) = length packages
   \<and> TotalCount (fst (BatchSyncAssignments env c w packages)) = int (length packages)
   \<and> SuccessCount (fst (BatchSyncAssignments env c w packages))
       + FailureCount (fst (BatchSyncAssignments env c w packages))
       = TotalCount (fst (BatchSyncAssignments env c w packages))
   \<and> Results (fst (BatchSyncAssignments env c w packages))
       = map as_result (sync_outcomes env c (batch_start env w) packages)
   \<and> FailureCount (fst (BatchSyncAssignments env c w packages))
       = int (length (filter isl (sync_outcomes env c (batch_start env w) packages)))
   \<and> (\<forall>i < length packages.
         isl (sync_outcomes env c (batch_start env w) packages ! i)
         \<longleftrightarrow> Status (Results (fst (BatchSyncAssignments env c w packages)) ! i) = ''failed'')"
proof -
  let ?os = "sync_outcomes env c (batch_start env w) packages"
  let ?r = "fst (BatchSyncAssignments env c w packages)"
  have res: "Results ?r = map as_result ?os"
    and suc: "SuccessCount ?r = int (length (filter (\<lambda>r. \<not> isl r) ?os))"
    and fai: "FailureCount ?r = int (length (filter isl ?os))"
    and tot: "TotalCount ?r = int (length packages)"
    unfolding BatchSync_result using batch_loop_spec[of env c packages _ "batch_start env w"]
    by simp_all
  have len: "length ?os = length packages" by (rule sync_outcomes_length)
  have sum: "SuccessCount ?r + FailureCount ?r = TotalCount ?r"
    using count_split[of isl ?os] by (simp add: suc fai tot len)
  have failed: "Status (Results ?r ! i) = ''failed''" if "i < length packages" "isl (?os ! i)" for i
  proof -
    from that(2) obtain err where "?os ! i = Inl err" by (cases "?os ! i") simp_all
    with that(1) show ?thesis by (simp add: res len failed_result_def)
  qed
  have ok: "Status (Results ?r ! i) \<noteq> ''failed''"
    if "i < length packages" "\<not> isl (?os ! i)" for i
  proof -
    from that(2) obtain ir where o: "?os ! i = Inr ir" by (cases "?os ! i") simp_all
    from sync_outcomes_status[OF that(1) o] that(1) o show ?thesis by (simp add: res len)
  qed
  from failed ok have "\<forall>i < length packages.
      isl (?os ! i) \<longleftrightarrow> Status (Results ?r ! i) = ''failed''"
    by blast
  with res fai tot len sum show ?thesis by simp
qed

lemma sync_1: "SyncAssignment scriptedEnv exampleClient (Response 201 ''a1'' # rest) (titled t)
  = (Inr \<lparr>AssignmentID = ''a1'', ResourceIDs = [], Conflicts = [], Status = ''success'',
          Message = ''created'', ImportResult.Metadata = Map.empty\<rparr>, rest)"
  by (simp add: SyncAssignment_def scriptedEnv_def titled_def zeroPackage_def)

lemma sync_2: "SyncAssignment scriptedEnv exampleClient (SendError e # rest) (titled t)
  = (Inl (''failed to send request: '' @ e), rest)"
  by (simp add: SyncAssignment_def scriptedEnv_def)

lemma sync_3: "SyncAssignment scriptedEnv exampleClient (Response 200 ''a3'' # rest) (titled t)
  = (Inr \<lparr>AssignmentID = ''a3'', ResourceIDs = [], Conflicts = [], Status = ''success'',
          Message = ''created'', ImportResult.Metadata = Map.empty\<rparr>, rest)"
  by (simp add: SyncAssignment_def scriptedEnv_def titled_def zeroPackage_def)

lemma example_outcomes:
  "sync_outcomes scriptedEnv exampleClient (batch_start scriptedEnv secondFails) threePackages
   = [Inr \<lparr>AssignmentID = ''a1'', ResourceIDs = [], Conflicts = [], Status = ''success'',
          Message = ''created'', ImportResult.Metadata = Map.empty\<rparr>,
      Inl ''failed to send request: connection reset'',
      Inr \<lparr>AssignmentID = ''a3'', ResourceIDs = [], Conflicts = [], Status = ''success'',
          Message = ''created'', ImportResult.Metadata = Map.empty\<rparr>]"
proof -
  have "batch_start scriptedEnv secondFails = secondFails"
    by (simp add: batch_start_def scriptedEnv_def)
  then show ?thesis
    by (simp add: secondFails_def threePackages_def sync_1 sync_2 sync_3)
qed

theorem batch_sync_results_witness:
  "length threePackages = 3
   \<and> isl (sync_outcomes scriptedEnv exampleClient (batch_start scriptedEnv secondFails)
             threePackages ! 1)
   \<and> SuccessCount (fst (BatchSyncAssignments scriptedEnv exampleClient secondFails
                          threePackages)) = 2
   \<and> FailureCount (fst (BatchSyncAssignments scriptedEnv exampleClient secondFails
                          threePackages)) = 1
   \<and> map Status (Results (fst (BatchSyncAssignments scriptedEnv exampleClient secondFails
                                threePackages)))
       = [''success'', ''failed'', ''success'']
   \<and> map AssignmentID (Results (fst (BatchSyncAssignments scriptedEnv exampleClient
                                      secondFails threePackages)))
       = [''a1'', [], ''a3'']"
proof -
  have l: "length threePackages = 3" by (simp add: threePackages_def)
  from batch_sync_results[of scriptedEnv exampleClient secondFails threePackages]
  show ?thesis
    unfolding example_outcomes l by (simp add: failed_result_def)
qed

end
